theory Spec2Isabelle
  imports Main
begin

section \<open>Values exchanged with the host environment\<close>

text \<open>
  A shallow embedding of \<^verbatim>\<open>src/modules/windows.js\<close>: the class \<^verbatim>\<open>Window\<close> (one handle
  around one native \<^verbatim>\<open>BrowserWindow\<close>) and the class \<^verbatim>\<open>Windows\<close> (the registry).

  Objects of class \<^verbatim>\<open>Window\<close> live in a store; a reference is the index of the object
  in the store. Each \<^verbatim>\<open>Window\<close> constructs exactly one \<^verbatim>\<open>BrowserWindow\<close>, so the same
  reference also names the native window of the handle (\<^verbatim>\<open>this.window\<close>).

  The native toolkit is not part of the file. What the file does to it is recorded as a
  list of calls; what it does to the file is an event handler that the environment runs.
  Left out, because they touch no field of a handle or of the registry: logging, the
  \<^verbatim>\<open>will-navigate\<close> veto, and the \<^verbatim>\<open>show\<close> and \<^verbatim>\<open>hide\<close> events re-emitted by a
  handle (their only listener centres the loading window).
\<close>

type_synonym ref = nat

text \<open>
  \<^verbatim>\<open>ownerId\<close> is compared with \<^verbatim>\<open>===\<close>; it is \<^verbatim>\<open>undefined\<close> (property absent),
  \<^verbatim>\<open>null\<close> (the popup default) or the numeric id of the creating window.
\<close>

datatype owner = OwnerUndefined | OwnerNull | OwnerId nat

text \<open>
  \<^verbatim>\<open>opts.sendData\<close> is either a channel name or an object of channel/value pairs (own
  enumerable properties in their order). Message values are opaque and kept as strings.
\<close>

datatype sendData = SendString string | SendObject "(string \<times> string) list"

datatype flag = FBool bool | FStr string

datatype mode = Mist | Wallet

datatype error = TypeError

text \<open>
  The options handed to the native toolkit. Width, height, position, parent and the
  preload script are the properties this file reads or writes one by one; every other
  property (title, chrome flags, the remaining \<^verbatim>\<open>webPreferences\<close>, written with a dotted
  key) is only passed through to \<^verbatim>\<open>new BrowserWindow\<close> and is kept, in order, in
  \<open>eo_flags\<close>. \<open>None\<close> is an absent property.
\<close>

record electronOptions =
  eo_width :: "int option"
  eo_height :: "int option"
  eo_x :: "int option"
  eo_y :: "int option"
  eo_parent :: "ref option"
  eo_preload :: "string option"
  eo_flags :: "(string \<times> flag) list"

text \<open>
  The options object of \<^verbatim>\<open>create\<close>, \<^verbatim>\<open>createPopup\<close> and the \<^verbatim>\<open>Window\<close> constructor.
  An absent \<^verbatim>\<open>electronOptions\<close> object is the empty one.
\<close>

record options =
  opt_primary :: "bool option"
  opt_url :: "string option"
  opt_show :: "bool option"
  opt_ownerId :: owner
  opt_useWeb3 :: "bool option"
  opt_isPopup :: "bool option"
  opt_isAvailable :: "bool option"
  opt_sendData :: "sendData option"
  opt_electronOptions :: electronOptions

text \<open>The values read from \<^verbatim>\<open>global\<close>, \<^verbatim>\<open>Settings\<close> and \<^verbatim>\<open>__dirname\<close>.\<close>

record globals =
  defaultWindow_width :: int
  defaultWindow_height :: int
  defaultWindow_x :: "int option"
  defaultWindow_y :: "int option"
  g_mode :: mode
  interfacePopupsUrl :: string
  dirname :: string
  appName :: string
  language :: string
  icon :: string

definition no_electronOptions :: electronOptions where
  "no_electronOptions =
     \<lparr>eo_width = None, eo_height = None, eo_x = None, eo_y = None, eo_parent = None,
      eo_preload = None, eo_flags = []\<rparr>"

definition no_options :: options where
  "no_options =
     \<lparr>opt_primary = None, opt_url = None, opt_show = None, opt_ownerId = OwnerUndefined,
      opt_useWeb3 = None, opt_isPopup = None, opt_isAvailable = None, opt_sendData = None,
      opt_electronOptions = no_electronOptions\<rparr>"

text \<open>
  Truthiness of an optional boolean. An optional string is truthy when it is present and
  not the empty string.
\<close>

definition truthy :: "bool option \<Rightarrow> bool" where
  "truthy b = (b = Some True)"

subsection \<open>Deep merge of option objects\<close>

text \<open>
  Modelled from the spec: \<^verbatim>\<open>_.deepExtend\<close> is a mixin of a library that is not part of
  the source file. The spec gives its semantics: nested configuration objects merge key by
  key, and a scalar leaf of the higher-precedence (later) source wins. \<open>assign k v\<close> is
  the property write \<^verbatim>\<open>obj[k] = v\<close>: an existing key keeps its place, a new key is
  appended.
\<close>

definition override :: "'a option \<Rightarrow> 'a option \<Rightarrow> 'a option" where
  "override a b = (case b of None \<Rightarrow> a | Some v \<Rightarrow> Some v)"

fun assign :: "'k \<Rightarrow> 'v \<Rightarrow> ('k \<times> 'v) list \<Rightarrow> ('k \<times> 'v) list" where
  "assign k v [] = [(k, v)]"
| "assign k v (p # ps) = (if fst p = k then (k, v) # ps else p # assign k v ps)"

definition extend_flags :: "(string \<times> flag) list \<Rightarrow> (string \<times> flag) list \<Rightarrow> (string \<times> flag) list" where
  "extend_flags a b = fold (\<lambda>(k, v). assign k v) b a"

definition deepExtend_eo :: "electronOptions \<Rightarrow> electronOptions \<Rightarrow> electronOptions" where
  "deepExtend_eo a b =
     \<lparr>eo_width = override (eo_width a) (eo_width b),
      eo_height = override (eo_height a) (eo_height b),
      eo_x = override (eo_x a) (eo_x b),
      eo_y = override (eo_y a) (eo_y b),
      eo_parent = override (eo_parent a) (eo_parent b),
      eo_preload = override (eo_preload a) (eo_preload b),
      eo_flags = extend_flags (eo_flags a) (eo_flags b)\<rparr>"

definition deepExtend :: "options \<Rightarrow> options \<Rightarrow> options" where
  "deepExtend a b =
     \<lparr>opt_primary = override (opt_primary a) (opt_primary b),
      opt_url = override (opt_url a) (opt_url b),
      opt_show = override (opt_show a) (opt_show b),
      opt_ownerId = (if opt_ownerId b = OwnerUndefined then opt_ownerId a else opt_ownerId b),
      opt_useWeb3 = override (opt_useWeb3 a) (opt_useWeb3 b),
      opt_isPopup = override (opt_isPopup a) (opt_isPopup b),
      opt_isAvailable = override (opt_isAvailable a) (opt_isAvailable b),
      opt_sendData = override (opt_sendData a) (opt_sendData b),
      opt_electronOptions = deepExtend_eo (opt_electronOptions a) (opt_electronOptions b)\<rparr>"

subsection \<open>The per-type presets\<close>

definition mainWebPreferences :: "globals \<Rightarrow> electronOptions" where
  "mainWebPreferences g =
     (case g_mode g of
        Mist \<Rightarrow> no_electronOptions
          \<lparr>eo_preload := Some (dirname g @ ''/preloader/mistUI.js''),
           eo_flags := [(''webPreferences.nodeIntegration'', FBool True),
                        (''webPreferences.overlay-fullscreen-video'', FBool True),
                        (''webPreferences.overlay-scrollbars'', FBool True),
                        (''webPreferences.experimentalFeatures'', FBool True)]\<rparr>
      | Wallet \<Rightarrow> no_electronOptions
          \<lparr>eo_preload := Some (dirname g @ ''/preloader/walletMain.js''),
           eo_flags := [(''webPreferences.overlay-fullscreen-video'', FBool True),
                        (''webPreferences.overlay-scrollbars'', FBool True)]\<rparr>)"

definition sized :: "int \<Rightarrow> int \<Rightarrow> (string \<times> flag) list \<Rightarrow> electronOptions" where
  "sized w h fs = no_electronOptions \<lparr>eo_width := Some w, eo_height := Some h, eo_flags := fs\<rparr>"

definition Windows_getDefaultOptionsForType :: "globals \<Rightarrow> string \<Rightarrow> options" where
  "Windows_getDefaultOptionsForType g type =
     (if type = ''main'' then
        no_options
          \<lparr>opt_primary := Some True,
           opt_electronOptions := (mainWebPreferences g)
             \<lparr>eo_width := Some (max (defaultWindow_width g) 500),
              eo_height := Some (max (defaultWindow_height g) 440),
              eo_x := defaultWindow_x g,
              eo_y := defaultWindow_y g\<rparr>\<rparr>
      else if type = ''splash'' then
        no_options
          \<lparr>opt_primary := Some True,
           opt_url := Some (interfacePopupsUrl g @ ''#splashScreen_'' @
                            (case g_mode g of Mist \<Rightarrow> ''mist'' | Wallet \<Rightarrow> ''wallet'')),
           opt_show := Some True,
           opt_electronOptions := (sized 400 230
              [(''resizable'', FBool False), (''backgroundColor'', FStr ''#F6F6F6''),
               (''useContentSize'', FBool True), (''frame'', FBool False)])
             \<lparr>eo_preload := Some (dirname g @ ''/preloader/splashScreen.js'')\<rparr>\<rparr>
      else if type = ''loading'' then
        no_options
          \<lparr>opt_show := Some False,
           opt_url := Some (interfacePopupsUrl g @ ''#loadingWindow''),
           opt_electronOptions := sized 100 80
              [(''title'', FStr ''''), (''alwaysOnTop'', FBool True), (''resizable'', FBool False),
               (''center'', FBool True), (''frame'', FBool False), (''useContentSize'', FBool True),
               (''titleBarStyle'', FStr ''''), (''skipTaskbar'', FBool True)]\<rparr>
      else if type = ''onboardingScreen'' then
        no_options \<lparr>opt_primary := Some True, opt_electronOptions := sized 576 442 []\<rparr>
      else if type = ''about'' then
        no_options \<lparr>opt_electronOptions := sized 420 230 [(''alwaysOnTop'', FBool True)]\<rparr>
      else if type = ''remix'' then
        no_options
          \<lparr>opt_url := Some ''https://remix.ethereum.org'',
           opt_electronOptions := sized 1024 720
              [(''center'', FBool True), (''frame'', FBool True), (''resizable'', FBool True),
               (''titleBarStyle'', FStr ''default'')]\<rparr>
      else if type = ''importAccount'' then
        no_options \<lparr>opt_electronOptions := sized 600 370 [(''alwaysOnTop'', FBool True)]\<rparr>
      else if type = ''requestAccount'' then
        no_options \<lparr>opt_electronOptions := sized 420 230 [(''alwaysOnTop'', FBool True)]\<rparr>
      else if type = ''connectAccount'' then
        no_options
          \<lparr>opt_electronOptions := sized 460 520
              [(''maximizable'', FBool False), (''minimizable'', FBool False),
               (''alwaysOnTop'', FBool True)]\<rparr>
      else if type = ''sendTransactionConfirmation'' then
        no_options
          \<lparr>opt_electronOptions := sized 580 550
              [(''alwaysOnTop'', FBool True), (''enableLargerThanScreen'', FBool False),
               (''resizable'', FBool True)]\<rparr>
      else if type = ''updateAvailable'' then
        no_options
          \<lparr>opt_useWeb3 := Some False,
           opt_electronOptions := sized 580 250
              [(''alwaysOnTop'', FBool True), (''resizable'', FBool False),
               (''maximizable'', FBool False)]\<rparr>
      else if type = ''clientUpdateAvailable'' then
        no_options
          \<lparr>opt_useWeb3 := Some False,
           opt_electronOptions := sized 600 340
              [(''alwaysOnTop'', FBool False), (''resizable'', FBool False),
               (''maximizable'', FBool False)]\<rparr>
      else no_options)"

section \<open>The class \<^verbatim>\<open>Window\<close>\<close>

text \<open>
  Listeners registered with \<^verbatim>\<open>once\<close>. On \<^verbatim>\<open>webContents\<close>, for \<^verbatim>\<open>did-finish-load\<close>: the
  closure of the constructor (it reads \<^verbatim>\<open>opts.sendData\<close> and \<^verbatim>\<open>opts.show\<close>) and the closure
  of \<^verbatim>\<open>reuse\<close>. On the handle, for \<^verbatim>\<open>ready\<close>: the closure of \<^verbatim>\<open>createPopup\<close>, which
  captures the requested type.
\<close>

datatype dflListener = CtorLoaded "sendData option" "bool option" | ReuseShow

datatype readyListener = HideLoading string

text \<open>
  The fields of a handle. \<^verbatim>\<open>isContentReady\<close>, \<^verbatim>\<open>isShown\<close> and \<^verbatim>\<open>isClosed\<close> are not
  assigned by the constructor; they are only ever tested for truthiness, so \<^verbatim>\<open>undefined\<close>
  is \<open>False\<close>. \<open>callback\<close> and \<open>wid\<close> (the field \<^verbatim>\<open>id\<close>) are \<open>None\<close> while unset;
  a callback is a function value, named by a number.
\<close>

record Window =
  wtype :: string
  isPrimary :: bool
  isPopup :: bool
  ownerId :: owner
  isAvailable :: bool
  isContentReady :: bool
  isShown :: bool
  isClosed :: bool
  callback :: "nat option"
  wid :: "nat option"
  onceDidFinishLoad :: "dflListener list"
  onceReady :: "readyListener list"

text \<open>The calls made on the native toolkit, in the order they are made.\<close>

datatype nativeCall =
    NewBrowserWindow ref electronOptions
  | SetUserAgent ref string
  | LoadURL ref string
  | WebContentsSend ref "string list"
  | NativeShow ref
  | NativeHide ref
  | NativeClose ref
  | SetSize ref "int option" "int option"

text \<open>The actions dispatched to the process-wide store.\<close>

datatype action =
    WindowCreateStart string
  | WindowCreateFinish string
  | GenericWindowReuse string
  | WindowsInitFinish

text \<open>
  The whole state: the store of handles, the registry \<^verbatim>\<open>this._windows\<close> (an object used
  as a dictionary: its keys in insertion order, which is the order of enumeration for
  keys that are not array indices, as window types are), the two distinguished fields of
  the registry, the log of native calls and dispatched actions, the flag
  \<^verbatim>\<open>global.store.getState().ui.appQuit\<close>, and the number of times \<^verbatim>\<open>app.quit()\<close> was called.
\<close>

record state =
  heap :: "Window list"
  windows :: "(string \<times> ref) list"
  loading :: "ref option"
  genericWindow :: "ref option"
  native :: "nativeCall list"
  dispatched :: "action list"
  appQuit :: bool
  quitCalls :: nat
  glob :: globals

definition deref :: "state \<Rightarrow> ref \<Rightarrow> Window option" where
  "deref s r = (if r < length (heap s) then Some (heap s ! r) else None)"

definition upd :: "ref \<Rightarrow> (Window \<Rightarrow> Window) \<Rightarrow> state \<Rightarrow> state" where
  "upd r f s = (case deref s r of None \<Rightarrow> s | Some w \<Rightarrow> s\<lparr>heap := (heap s)[r := f w]\<rparr>)"

definition call :: "nativeCall \<Rightarrow> state \<Rightarrow> state" where
  "call c s = s\<lparr>native := native s @ [c]\<rparr>"

definition dispatch :: "action \<Rightarrow> state \<Rightarrow> state" where
  "dispatch a s = s\<lparr>dispatched := dispatched s @ [a]\<rparr>"

subsection \<open>Methods\<close>

definition Window_load :: "ref \<Rightarrow> string \<Rightarrow> state \<Rightarrow> state" where
  "Window_load r url s =
     (case deref s r of
        None \<Rightarrow> s
      | Some w \<Rightarrow> if isClosed w then s else call (LoadURL r url) s)"

definition Window_send :: "ref \<Rightarrow> string list \<Rightarrow> state \<Rightarrow> state" where
  "Window_send r arguments s =
     (case deref s r of
        None \<Rightarrow> s
      | Some w \<Rightarrow>
          if isClosed w \<or> \<not> isContentReady w then s
          else call (WebContentsSend r arguments) s)"

definition Window_hide :: "ref \<Rightarrow> state \<Rightarrow> state" where
  "Window_hide r s =
     (case deref s r of
        None \<Rightarrow> s
      | Some w \<Rightarrow>
          if isClosed w then s
          else upd r (\<lambda>w. w\<lparr>isShown := False\<rparr>) (call (NativeHide r) s))"

definition Window_show :: "ref \<Rightarrow> state \<Rightarrow> state" where
  "Window_show r s =
     (case deref s r of
        None \<Rightarrow> s
      | Some w \<Rightarrow>
          if isClosed w then s
          else upd r (\<lambda>w. w\<lparr>isShown := True\<rparr>) (call (NativeShow r) s))"

definition Window_close :: "ref \<Rightarrow> state \<Rightarrow> state" where
  "Window_close r s =
     (case deref s r of
        None \<Rightarrow> s
      | Some w \<Rightarrow>
          if isClosed w then s
          else if wtype w = ''genericWindow'' then
            upd r (\<lambda>w. w\<lparr>isAvailable := True\<rparr>) (Window_hide r s)
          else call (NativeClose r) s)"

text \<open>
  \<^verbatim>\<open>reuse(type, options, callback)\<close>: neither \<^verbatim>\<open>type\<close> nor \<^verbatim>\<open>callback\<close> is read
  by the body, and there is no \<^verbatim>\<open>return\<close> statement: the call evaluates to \<^verbatim>\<open>undefined\<close>.
\<close>

definition Window_reuse :: "ref \<Rightarrow> string \<Rightarrow> options \<Rightarrow> nat option \<Rightarrow> state \<Rightarrow> state" where
  "Window_reuse r type options cb s =
     (let s1 = upd r (\<lambda>w. w\<lparr>isAvailable := False\<rparr>) s;
          s2 = (case opt_url options of
                  None \<Rightarrow> s1
                | Some url \<Rightarrow> if url \<noteq> [] then Window_load r url s1 else s1);
          s3 = call (SetSize r (eo_width (opt_electronOptions options))
                               (eo_height (opt_electronOptions options))) s2
      in upd r (\<lambda>w. w\<lparr>onceDidFinishLoad := onceDidFinishLoad w @ [ReuseShow]\<rparr>) s3)"

subsection \<open>The constructor\<close>

definition baseElectronOptions :: "globals \<Rightarrow> electronOptions" where
  "baseElectronOptions g =
     sized 1100 720
       [(''title'', FStr (appName g)), (''show'', FBool False), (''icon'', FStr (icon g)),
        (''titleBarStyle'', FStr ''hidden-inset''), (''backgroundColor'', FStr ''#F6F6F6''),
        (''acceptFirstMouse'', FBool True), (''darkTheme'', FBool True),
        (''webPreferences.nodeIntegration'', FBool False),
        (''webPreferences.webaudio'', FBool True),
        (''webPreferences.webgl'', FBool False),
        (''webPreferences.webSecurity'', FBool False),
        (''webPreferences.textAreasAreResizable'', FBool True)]"

text \<open>
  \<^verbatim>\<open>new Window(mgr, type, opts)\<close> allocates the handle at the next free reference,
  constructs its native window, registers the \<^verbatim>\<open>did-finish-load\<close> closure and loads
  \<^verbatim>\<open>opts.url\<close> when it is truthy. The handlers of \<^verbatim>\<open>closed\<close> and \<^verbatim>\<open>close\<close> registered here
  are \<open>Window_on_closed\<close> and \<open>Window_on_close\<close> below.
\<close>

definition Window_new :: "string \<Rightarrow> options \<Rightarrow> state \<Rightarrow> ref \<times> state" where
  "Window_new type opts s =
     (let r = length (heap s);
          w = \<lparr>wtype = type,
               isPrimary = truthy (opt_primary opts),
               isPopup = truthy (opt_isPopup opts),
               ownerId = opt_ownerId opts,
               isAvailable = truthy (opt_isAvailable opts),
               isContentReady = False, isShown = False, isClosed = False,
               callback = None, wid = None,
               onceDidFinishLoad = [CtorLoaded (opt_sendData opts) (opt_show opts)],
               onceReady = []\<rparr>;
          s1 = s\<lparr>heap := heap s @ [w]\<rparr>;
          s2 = call (NewBrowserWindow r
                 (deepExtend_eo (baseElectronOptions (glob s)) (opt_electronOptions opts))) s1;
          s3 = call (SetUserAgent r (language (glob s))) s2
      in (r, case opt_url opts of
               None \<Rightarrow> s3
             | Some url \<Rightarrow> if url \<noteq> [] then Window_load r url s3 else s3))"

subsection \<open>Event handlers of a handle\<close>

fun fold_err :: "('a \<Rightarrow> state \<Rightarrow> error + state) \<Rightarrow> 'a list \<Rightarrow> state \<Rightarrow> error + state" where
  "fold_err f [] s = Inr s"
| "fold_err f (x # xs) s = (case f x s of Inl e \<Rightarrow> Inl e | Inr s' \<Rightarrow> fold_err f xs s')"

text \<open>
  The closure \<^verbatim>\<open>() => { if (type !== 'genericWindow') { this.loading.hide(); } }\<close> that
  \<^verbatim>\<open>createPopup\<close> registers for \<^verbatim>\<open>ready\<close>. \<^verbatim>\<open>this.loading\<close> is read when the closure
  runs; calling a method of \<^verbatim>\<open>undefined\<close> throws.
\<close>

fun run_readyListener :: "readyListener \<Rightarrow> state \<Rightarrow> error + state" where
  "run_readyListener (HideLoading type) s =
     (if type \<noteq> ''genericWindow'' then
        (case loading s of None \<Rightarrow> Inl TypeError | Some l \<Rightarrow> Inr (Window_hide l s))
      else Inr s)"

text \<open>\<^verbatim>\<open>this.emit('ready')\<close>: the listeners registered once are removed and run in order.\<close>

definition emit_ready :: "ref \<Rightarrow> state \<Rightarrow> error + state" where
  "emit_ready r s =
     (case deref s r of
        None \<Rightarrow> Inr s
      | Some w \<Rightarrow> fold_err run_readyListener (onceReady w) (upd r (\<lambda>w. w\<lparr>onceReady := []\<rparr>) s))"

fun run_dflListener :: "ref \<Rightarrow> dflListener \<Rightarrow> state \<Rightarrow> error + state" where
  "run_dflListener r (CtorLoaded sd sh) s =
     (let s1 = upd r (\<lambda>w. w\<lparr>isContentReady := True\<rparr>) s;
          s2 = (case sd of
                  None \<Rightarrow> s1
                | Some (SendString c) \<Rightarrow> if c \<noteq> [] then Window_send r [c] s1 else s1
                | Some (SendObject kvs) \<Rightarrow> fold (\<lambda>(k, v). Window_send r [k, v]) kvs s1);
          s3 = (if truthy sh then Window_show r s2 else s2)
      in emit_ready r s3)"
| "run_dflListener r ReuseShow s = Inr (Window_show r s)"

text \<open>
  The native event \<^verbatim>\<open>did-finish-load\<close> of the handle's content: every listener
  registered once is removed and run, in the order of registration.
\<close>

definition Window_on_did_finish_load :: "ref \<Rightarrow> state \<Rightarrow> error + state" where
  "Window_on_did_finish_load r s =
     (case deref s r of
        None \<Rightarrow> Inr s
      | Some w \<Rightarrow>
          fold_err (run_dflListener r) (onceDidFinishLoad w)
            (upd r (\<lambda>w. w\<lparr>onceDidFinishLoad := []\<rparr>) s))"

text \<open>
  The handler of the native event \<^verbatim>\<open>close\<close> (a request to close the window, from the
  user or from \<^verbatim>\<open>window.close()\<close>). The first component of the result tells whether
  \<^verbatim>\<open>e.preventDefault()\<close> was called, which cancels the request. The re-emitted \<^verbatim>\<open>close\<close>
  event of the handle has no listener in this file.
\<close>

definition Window_on_close :: "ref \<Rightarrow> state \<Rightarrow> bool \<times> state" where
  "Window_on_close r s =
     (case deref s r of
        None \<Rightarrow> (False, s)
      | Some w \<Rightarrow>
          (let continueUsingApp = \<not> appQuit s
           in if wtype w = ''genericWindow'' \<and> continueUsingApp then (True, Window_close r s)
              else (False, s)))"

section \<open>The class \<^verbatim>\<open>Windows\<close>\<close>

text \<open>
  \<^verbatim>\<open>_.find(this._windows, predicate)\<close>: the first registered handle, in the order of the
  keys, that satisfies the predicate, or \<^verbatim>\<open>undefined\<close>.
\<close>

definition find_window :: "(Window \<Rightarrow> bool) \<Rightarrow> state \<Rightarrow> ref option" where
  "find_window P s =
     map_option snd
       (find (\<lambda>p. case deref s (snd p) of None \<Rightarrow> False | Some w \<Rightarrow> P w) (windows s))"

definition Windows_getByType :: "string \<Rightarrow> state \<Rightarrow> ref option" where
  "Windows_getByType type s = find_window (\<lambda>w. wtype w = type) s"

definition Windows_getById :: "nat \<Rightarrow> state \<Rightarrow> ref option" where
  "Windows_getById i s = find_window (\<lambda>w. wid w = Some i) s"

definition Windows_broadcast :: "string list \<Rightarrow> state \<Rightarrow> state" where
  "Windows_broadcast arguments s = fold (\<lambda>p. Window_send (snd p) arguments) (windows s) s"

text \<open>
  The loop of \<^verbatim>\<open>_onWindowClosed\<close>: delete the first key whose value is identical to the
  closed handle, then \<^verbatim>\<open>break\<close>.
\<close>

fun delete_identical :: "ref \<Rightarrow> (string \<times> ref) list \<Rightarrow> (string \<times> ref) list" where
  "delete_identical wnd [] = []"
| "delete_identical wnd (p # ps) = (if snd p = wnd then ps else p # delete_identical wnd ps)"

definition Windows_onWindowClosed :: "ref \<Rightarrow> state \<Rightarrow> state" where
  "Windows_onWindowClosed wnd s =
     (let s1 = s\<lparr>windows := delete_identical wnd (windows s)\<rparr>;
          anyOpen = find_window (\<lambda>w. isPrimary w \<and> \<not> isClosed w \<and> isShown w) s1
      in if anyOpen = None then s1\<lparr>quitCalls := quitCalls s1 + 1\<rparr> else s1)"

text \<open>
  The handler of the native event \<^verbatim>\<open>closed\<close> (the window has been destroyed, which
  happens once): it sets the flags and emits \<^verbatim>\<open>closed\<close> on the handle, whose listener is the
  \<^verbatim>\<open>_onWindowClosed\<close> bound by \<^verbatim>\<open>create\<close>, the only place where handles are constructed.
\<close>

definition Window_on_closed :: "ref \<Rightarrow> state \<Rightarrow> state" where
  "Window_on_closed r s =
     Windows_onWindowClosed r
       (upd r (\<lambda>w. w\<lparr>isShown := False, isClosed := True, isContentReady := False\<rparr>) s)"

text \<open>
  The condition \<^verbatim>\<open>existing && existing.ownerId === options.ownerId\<close> of \<^verbatim>\<open>create\<close>.
\<close>

definition existing_same_owner :: "string \<Rightarrow> owner \<Rightarrow> state \<Rightarrow> ref option" where
  "existing_same_owner type oid s =
     (case Windows_getByType type s of
        None \<Rightarrow> None
      | Some existing \<Rightarrow>
          (case deref s existing of
             None \<Rightarrow> None
           | Some w \<Rightarrow> if ownerId w = oid then Some existing else None))"

definition Windows_create :: "string \<Rightarrow> options \<Rightarrow> nat option \<Rightarrow> state \<Rightarrow> ref \<times> state" where
  "Windows_create type opts cb s =
     (let s1 = dispatch (WindowCreateStart type) s;
          options = deepExtend (Windows_getDefaultOptionsForType (glob s) type) opts
      in case existing_same_owner type (opt_ownerId options) s1 of
           Some existing \<Rightarrow> (existing, s1)
         | None \<Rightarrow>
             (let (wnd, s2) = Window_new type options s1;
                  s3 = s2\<lparr>windows := assign type wnd (windows s2)\<rparr>;
                  s4 = (case cb of
                          None \<Rightarrow> s3
                        | Some f \<Rightarrow> upd wnd (\<lambda>w. w\<lparr>callback := Some f\<rparr>) s3)
              in (wnd, dispatch (WindowCreateFinish type) s4)))"

definition defaultPopupOpts :: "globals \<Rightarrow> string \<Rightarrow> options" where
  "defaultPopupOpts g type =
     no_options
       \<lparr>opt_url := Some (interfacePopupsUrl g @ ''#'' @ type),
        opt_show := Some True,
        opt_ownerId := OwnerNull,
        opt_useWeb3 := Some True,
        opt_electronOptions := sized 400 400
          [(''title'', FStr ''''), (''resizable'', FBool False), (''center'', FBool True),
           (''useContentSize'', FBool True), (''titleBarStyle'', FStr ''hidden''),
           (''autoHideMenuBar'', FBool True),
           (''webPreferences.textAreasAreResizable'', FBool False)]\<rparr>"

text \<open>
  The options \<^verbatim>\<open>opts\<close> that \<^verbatim>\<open>createPopup\<close> computes before it chooses a path: the merge
  of the popup defaults, the preset of the type and the caller's options, the parent
  (the registered window of type \<^verbatim>\<open>main\<close>, if any), the popup mark and the preload script.
\<close>

definition popupOpts :: "string \<Rightarrow> options \<Rightarrow> state \<Rightarrow> options" where
  "popupOpts type options s =
     (let g = glob s;
          opts = deepExtend
                   (deepExtend (defaultPopupOpts g type) (Windows_getDefaultOptionsForType g type))
                   options;
          eo = opt_electronOptions opts;
          eo1 = (case find_window (\<lambda>w. wtype w = ''main'') s of
                   None \<Rightarrow> eo
                 | Some parent \<Rightarrow> eo\<lparr>eo_parent := Some parent\<rparr>);
          eo2 = eo1\<lparr>eo_preload := Some (dirname g @
                   (if truthy (opt_useWeb3 opts) then ''/preloader/popupWindows.js''
                    else ''/preloader/popupWindowsNoWeb3.js''))\<rparr>
      in opts\<lparr>opt_isPopup := Some True, opt_electronOptions := eo2\<rparr>)"

text \<open>
  The condition \<^verbatim>\<open>genericWindow && genericWindow.isAvailable\<close> of \<^verbatim>\<open>createPopup\<close>, where
  \<^verbatim>\<open>genericWindow\<close> is \<^verbatim>\<open>this.getByType('genericWindow')\<close>.
\<close>

definition available_generic :: "state \<Rightarrow> ref option" where
  "available_generic s =
     (case Windows_getByType ''genericWindow'' s of
        None \<Rightarrow> None
      | Some gw \<Rightarrow>
          (case deref s gw of
             None \<Rightarrow> None
           | Some w \<Rightarrow> if isAvailable w then Some gw else None))"

text \<open>
  \<^verbatim>\<open>createPopup(type, options, callback)\<close>. The result is the returned value (\<open>None\<close> is
  \<^verbatim>\<open>undefined\<close>) with the new state, or the exception thrown: \<^verbatim>\<open>this.loading.show()\<close>
  throws when \<^verbatim>\<open>this.loading\<close> is still \<^verbatim>\<open>undefined\<close>, before anything has been changed.
\<close>

definition Windows_createPopup ::
  "string \<Rightarrow> options \<Rightarrow> nat option \<Rightarrow> state \<Rightarrow> error + (ref option \<times> state)" where
  "Windows_createPopup type options cb s =
     (let opts = popupOpts type options s
      in case available_generic s of
           Some gw \<Rightarrow>
             Inr (None, Window_reuse gw type opts cb (dispatch (GenericWindowReuse type) s))
         | None \<Rightarrow>
             (case (if type \<noteq> ''genericWindow'' then
                      (case loading s of
                         None \<Rightarrow> Inl TypeError
                       | Some l \<Rightarrow> Inr (Window_show l s))
                    else Inr s) of
                Inl e \<Rightarrow> Inl e
              | Inr s1 \<Rightarrow>
                  (let (wnd, s2) = Windows_create type opts cb s1
                   in Inr (Some wnd,
                           upd wnd (\<lambda>w. w\<lparr>onceReady := onceReady w @ [HideLoading type]\<rparr>) s2))))"

text \<open>
  \<^verbatim>\<open>init()\<close> creates the loading window and the pooled generic window, and keeps what
  \<^verbatim>\<open>createPopup\<close> returned in \<^verbatim>\<open>this.genericWindow\<close>.
\<close>

definition Windows_init :: "state \<Rightarrow> error + state" where
  "Windows_init s =
     (let (l, s1) = Windows_create ''loading'' no_options None s;
          s2 = s1\<lparr>loading := Some l\<rparr>
      in case Windows_createPopup ''genericWindow''
                (no_options
                   \<lparr>opt_isAvailable := Some True,
                    opt_show := Some False,
                    opt_electronOptions :=
                      no_electronOptions\<lparr>eo_flags := [(''isShown'', FBool False)]\<rparr>\<rparr>)
                None s2 of
           Inl e \<Rightarrow> Inl e
         | Inr (gw, s3) \<Rightarrow> Inr (dispatch WindowsInitFinish (s3\<lparr>genericWindow := gw\<rparr>)))"

text \<open>
  The listener of \<^verbatim>\<open>backendAction_setWindowId\<close>: the handle whose native window sent the
  message gets the sender's id.
\<close>

definition Windows_on_setWindowId :: "ref \<Rightarrow> nat \<Rightarrow> state \<Rightarrow> state" where
  "Windows_on_setWindowId bwnd i s =
     (case find (\<lambda>p. snd p = bwnd) (windows s) of
        None \<Rightarrow> s
      | Some p \<Rightarrow> upd (snd p) (\<lambda>w. w\<lparr>wid := Some i\<rparr>) s)"

text \<open>The state of \<^verbatim>\<open>new Windows()\<close> in a process that is not quitting.\<close>

definition initial :: "globals \<Rightarrow> state" where
  "initial g =
     \<lparr>heap = [], windows = [], loading = None, genericWindow = None, native = [],
      dispatched = [], appQuit = False, quitCalls = 0, glob = g\<rparr>"

text \<open>
  The course of a close request in the native toolkit: it emits \<^verbatim>\<open>close\<close>; unless a
  handler cancelled the request, the window is destroyed and \<^verbatim>\<open>closed\<close> is emitted.
\<close>

definition native_close_request :: "ref \<Rightarrow> state \<Rightarrow> state" where
  "native_close_request r s =
     (let (cancelled, s1) = Window_on_close r s
      in if cancelled then s1 else Window_on_closed r s1)"

section \<open>Courses of calls and events\<close>

text \<open>
  A step is a call of a method of this file or an event delivered by the native toolkit.
  \<open>run\<close> executes steps in order and stops at the first exception.
\<close>

datatype step =
    Create string options "nat option"
  | CreatePopup string options "nat option"
  | Load ref string
  | Send ref "string list"
  | Show ref
  | Hide ref
  | Close ref
  | DidFinishLoad ref
  | CloseRequest ref

fun exec :: "step \<Rightarrow> state \<Rightarrow> error + state" where
  "exec (Create type opts cb) s = Inr (snd (Windows_create type opts cb s))"
| "exec (CreatePopup type opts cb) s = map_sum id snd (Windows_createPopup type opts cb s)"
| "exec (Load r url) s = Inr (Window_load r url s)"
| "exec (Send r arguments) s = Inr (Window_send r arguments s)"
| "exec (Show r) s = Inr (Window_show r s)"
| "exec (Hide r) s = Inr (Window_hide r s)"
| "exec (Close r) s = Inr (Window_close r s)"
| "exec (DidFinishLoad r) s = Window_on_did_finish_load r s"
| "exec (CloseRequest r) s = Inr (native_close_request r s)"

definition run :: "step list \<Rightarrow> state \<Rightarrow> error + state" where
  "run steps s = fold_err exec steps s"

text \<open>The number of native windows constructed so far.\<close>

fun is_construction :: "nativeCall \<Rightarrow> bool" where
  "is_construction (NewBrowserWindow r eo) = True"
| "is_construction c = False"

definition constructions :: "state \<Rightarrow> nat" where
  "constructions s = length (filter is_construction (native s))"

subsection \<open>Example states\<close>

definition example_globals :: globals where
  "example_globals =
     \<lparr>defaultWindow_width = 1100, defaultWindow_height = 720, defaultWindow_x = None,
      defaultWindow_y = None, g_mode = Mist, interfacePopupsUrl = ''popups.html'',
      dirname = ''/app'', appName = ''Mist'', language = ''en'', icon = ''icon.png''\<rparr>"

text \<open>
  The state after \<^verbatim>\<open>init()\<close>: the loading window is handle 0, the pooled generic window
  is handle 1 and is available.
\<close>

definition booted :: state where
  "booted =
     (case Windows_init (initial example_globals) of
        Inr s \<Rightarrow> s
      | Inl e \<Rightarrow> initial example_globals)"

text \<open>After \<^verbatim>\<open>init()\<close>, the window \<^verbatim>\<open>main\<close> is created (handle 2) and shown.\<close>

definition with_main :: state where
  "with_main = Window_show 2 (snd (Windows_create ''main'' no_options None booted))"

text \<open>
  Then the popup \<^verbatim>\<open>about\<close> is opened, which takes the pooled generic window (handle 1);
  then the popup \<^verbatim>\<open>connectAccount\<close> is opened while the pooled window is in use, which
  creates handle 3.
\<close>

definition with_about :: state where
  "with_about =
     (case Windows_createPopup ''about'' no_options None with_main of
        Inr (ret, s) \<Rightarrow> s
      | Inl e \<Rightarrow> with_main)"

definition with_connect :: state where
  "with_connect =
     (case Windows_createPopup ''connectAccount'' no_options None with_about of
        Inr (ret, s) \<Rightarrow> s
      | Inl e \<Rightarrow> with_about)"

section \<open>Basic facts about the store\<close>

lemma deref_upd [simp]:
  "deref (upd r f s) r' = (if r' = r then map_option f (deref s r) else deref s r')"
  by (auto simp: deref_def upd_def)

lemma upd_fields [simp]:
  "windows (upd r f s) = windows s" "native (upd r f s) = native s"
  "dispatched (upd r f s) = dispatched s" "quitCalls (upd r f s) = quitCalls s"
  "appQuit (upd r f s) = appQuit s" "loading (upd r f s) = loading s"
  "genericWindow (upd r f s) = genericWindow s"
  "glob (upd r f s) = glob s" "length (heap (upd r f s)) = length (heap s)"
  by (auto simp: upd_def split: option.splits)

lemma call_fields [simp]:
  "windows (call c s) = windows s" "native (call c s) = native s @ [c]"
  "dispatched (call c s) = dispatched s" "quitCalls (call c s) = quitCalls s"
  "appQuit (call c s) = appQuit s" "loading (call c s) = loading s"
  "genericWindow (call c s) = genericWindow s"
  "glob (call c s) = glob s" "heap (call c s) = heap s" "deref (call c s) r = deref s r"
  by (auto simp: call_def deref_def)

lemma dispatch_fields [simp]:
  "windows (dispatch a s) = windows s" "native (dispatch a s) = native s"
  "dispatched (dispatch a s) = dispatched s @ [a]" "quitCalls (dispatch a s) = quitCalls s"
  "appQuit (dispatch a s) = appQuit s" "loading (dispatch a s) = loading s"
  "genericWindow (dispatch a s) = genericWindow s"
  "glob (dispatch a s) = glob s" "heap (dispatch a s) = heap s"
  "deref (dispatch a s) r = deref s r"
  by (auto simp: dispatch_def deref_def)

lemma find_window_cong:
  assumes "windows s' = windows s" and "\<And>r. deref s' r = deref s r"
  shows "find_window P s' = find_window P s"
  using assms by (simp add: find_window_def)

lemma find_window_Some_deref:
  assumes "find_window P s = Some r"
  shows "\<exists>w. deref s r = Some w \<and> P w"
proof -
  from assms obtain p where p: "find (\<lambda>p. case deref s (snd p) of None \<Rightarrow> False | Some w \<Rightarrow> P w) (windows s) = Some p"
    and r: "r = snd p"
    by (auto simp: find_window_def)
  from p have "case deref s (snd p) of None \<Rightarrow> False | Some w \<Rightarrow> P w"
    by (auto simp: find_Some_iff)
  with r show ?thesis by (auto split: option.splits)
qed

lemma find_window_None_iff:
  "find_window P s = None \<longleftrightarrow>
     \<not> (\<exists>p \<in> set (windows s). \<exists>w. deref s (snd p) = Some w \<and> P w)"
  by (auto simp: find_window_def find_None_iff split: option.splits)

lemma delete_identical_subset: "set (delete_identical wnd ws) \<subseteq> set ws"
  by (induction ws) auto

lemma delete_identical_keeps:
  "p \<in> set ws \<Longrightarrow> snd p \<noteq> wnd \<Longrightarrow> p \<in> set (delete_identical wnd ws)"
  by (induction ws) auto

lemma delete_identical_gone:
  "distinct (map snd ws) \<Longrightarrow> wnd \<notin> snd ` set (delete_identical wnd ws)"
  by (induction ws) auto

lemma preset_ownerId [simp]:
  "opt_ownerId (Windows_getDefaultOptionsForType g type) = OwnerUndefined"
  by (simp add: Windows_getDefaultOptionsForType_def no_options_def)

lemma preset_url_nonempty:
  "opt_url (Windows_getDefaultOptionsForType g type) \<noteq> Some []"
  by (simp add: Windows_getDefaultOptionsForType_def no_options_def)

lemma popupOpts_url:
  "opt_url options \<noteq> Some [] \<longrightarrow>
     opt_url (popupOpts type options s) \<noteq> None \<and> opt_url (popupOpts type options s) \<noteq> Some []"
proof -
  have "opt_url (popupOpts type options s) =
      override (override (Some (interfacePopupsUrl (glob s) @ ''#'' @ type))
                         (opt_url (Windows_getDefaultOptionsForType (glob s) type)))
               (opt_url options)"
    by (simp add: popupOpts_def Let_def deepExtend_def defaultPopupOpts_def no_options_def)
  then show ?thesis
    using preset_url_nonempty [of "glob s" type]
    by (auto simp: override_def split: option.splits)
qed

section \<open>Facts about \<^verbatim>\<open>create\<close> and \<^verbatim>\<open>createPopup\<close>\<close>

lemma existing_same_owner_cong:
  assumes "windows s' = windows s"
    and "\<And>r. map_option (\<lambda>w. (wtype w, ownerId w)) (deref s' r) =
              map_option (\<lambda>w. (wtype w, ownerId w)) (deref s r)"
  shows "existing_same_owner type oid s' = existing_same_owner type oid s"
proof -
  have P: "(case deref s' r of None \<Rightarrow> False | Some w \<Rightarrow> wtype w = type) =
           (case deref s r of None \<Rightarrow> False | Some w \<Rightarrow> wtype w = type)" for r
    using assms(2) [of r] by (cases "deref s' r"; cases "deref s r") auto
  have Q: "(case deref s' e of None \<Rightarrow> None | Some w \<Rightarrow> if ownerId w = oid then Some e else None) =
           (case deref s e of None \<Rightarrow> None | Some w \<Rightarrow> if ownerId w = oid then Some e else None)" for e
    using assms(2) [of e] by (cases "deref s' e"; cases "deref s e") auto
  have "Windows_getByType type s' = Windows_getByType type s"
    by (simp add: Windows_getByType_def find_window_def assms(1) P)
  then show ?thesis
    unfolding existing_same_owner_def by (simp add: Q cong: option.case_cong)
qed

lemma existing_same_owner_dispatch [simp]:
  "existing_same_owner type oid (dispatch a s) = existing_same_owner type oid s"
  by (rule existing_same_owner_cong) simp_all

lemma existing_same_owner_show [simp]:
  "existing_same_owner type oid (Window_show l s) = existing_same_owner type oid s"
proof (rule existing_same_owner_cong)
  show "windows (Window_show l s) = windows s"
    by (simp add: Window_show_def split: option.splits)
  show "map_option (\<lambda>w. (wtype w, ownerId w)) (deref (Window_show l s) r) =
        map_option (\<lambda>w. (wtype w, ownerId w)) (deref s r)" for r
    by (auto simp: Window_show_def split: option.splits)
qed

lemma existing_same_owner_Some:
  assumes "existing_same_owner type oid s = Some e"
  shows "\<exists>w. deref s e = Some w \<and> wtype w = type \<and> ownerId w = oid"
proof -
  from assms have g: "Windows_getByType type s = Some e"
    by (auto simp: existing_same_owner_def split: option.splits if_splits)
  then obtain w where w: "deref s e = Some w" "wtype w = type"
    unfolding Windows_getByType_def using find_window_Some_deref by fastforce
  with assms g show ?thesis
    by (auto simp: existing_same_owner_def split: if_splits)
qed

lemma merged_ownerId [simp]:
  "opt_ownerId (deepExtend (Windows_getDefaultOptionsForType g type) opts) = opt_ownerId opts"
  by (simp add: deepExtend_def)

lemma Windows_create_existing:
  assumes "existing_same_owner type (opt_ownerId opts) s = Some e"
  shows "Windows_create type opts cb s = (e, dispatch (WindowCreateStart type) s)"
  using assms by (simp add: Windows_create_def Let_def)

lemma constructions_simps [simp]:
  "constructions (upd r f s) = constructions s"
  "constructions (dispatch a s) = constructions s"
  "constructions (call c s) = constructions s + (if is_construction c then 1 else 0)"
  by (simp_all add: constructions_def)

lemma Window_show_fields [simp]:
  "windows (Window_show l s) = windows s" "loading (Window_show l s) = loading s"
  "glob (Window_show l s) = glob s" "length (heap (Window_show l s)) = length (heap s)"
  "constructions (Window_show l s) = constructions s"
  "quitCalls (Window_show l s) = quitCalls s"
  by (simp_all add: Window_show_def split: option.splits)

lemma Window_new_result:
  "Window_new type opts s =
     (length (heap s),
      s\<lparr>heap := heap s @
           [\<lparr>wtype = type, isPrimary = truthy (opt_primary opts),
             isPopup = truthy (opt_isPopup opts), ownerId = opt_ownerId opts,
             isAvailable = truthy (opt_isAvailable opts),
             isContentReady = False, isShown = False, isClosed = False,
             callback = None, wid = None,
             onceDidFinishLoad = [CtorLoaded (opt_sendData opts) (opt_show opts)],
             onceReady = []\<rparr>],
        native := native s @
           [NewBrowserWindow (length (heap s))
              (deepExtend_eo (baseElectronOptions (glob s)) (opt_electronOptions opts)),
            SetUserAgent (length (heap s)) (language (glob s))] @
           (case opt_url opts of
              None \<Rightarrow> []
            | Some url \<Rightarrow> if url \<noteq> [] then [LoadURL (length (heap s)) url] else [])\<rparr>)"
  by (cases "opt_url opts")
     (simp_all add: Window_new_def Window_load_def call_def deref_def Let_def)

lemma Windows_create_new:
  assumes "existing_same_owner type (opt_ownerId opts) s = None"
  defines "merged \<equiv> deepExtend (Windows_getDefaultOptionsForType (glob s) type) opts"
  shows "Windows_create type opts cb s =
     (length (heap s),
      s\<lparr>heap := heap s @
           [\<lparr>wtype = type, isPrimary = truthy (opt_primary merged),
             isPopup = truthy (opt_isPopup merged), ownerId = opt_ownerId opts,
             isAvailable = truthy (opt_isAvailable merged),
             isContentReady = False, isShown = False, isClosed = False,
             callback = cb, wid = None,
             onceDidFinishLoad = [CtorLoaded (opt_sendData merged) (opt_show merged)],
             onceReady = []\<rparr>],
        windows := assign type (length (heap s)) (windows s),
        native := native s @
           [NewBrowserWindow (length (heap s))
              (deepExtend_eo (baseElectronOptions (glob s)) (opt_electronOptions merged)),
            SetUserAgent (length (heap s)) (language (glob s))] @
           (case opt_url merged of
              None \<Rightarrow> []
            | Some url \<Rightarrow> if url \<noteq> [] then [LoadURL (length (heap s)) url] else []),
        dispatched := dispatched s @ [WindowCreateStart type, WindowCreateFinish type]\<rparr>)"
proof -
  let ?s1 = "dispatch (WindowCreateStart type) s"
  have "Windows_create type opts cb s =
      (let (wnd, s2) = Window_new type merged ?s1;
           s3 = s2\<lparr>windows := assign type wnd (windows s2)\<rparr>;
           s4 = (case cb of
                   None \<Rightarrow> s3
                 | Some f \<Rightarrow> upd wnd (\<lambda>w. w\<lparr>callback := Some f\<rparr>) s3)
       in (wnd, dispatch (WindowCreateFinish type) s4))"
    using assms(1) by (simp add: Windows_create_def Let_def merged_def)
  moreover have "opt_ownerId merged = opt_ownerId opts"
    by (simp add: merged_def)
  ultimately show ?thesis
    by (cases cb; cases "opt_url merged")
       (simp_all add: Window_new_result upd_def deref_def dispatch_def)
qed

lemma available_generic_Some:
  assumes "available_generic s = Some gw"
  shows "\<exists>w. deref s gw = Some w \<and> wtype w = ''genericWindow'' \<and> isAvailable w \<and>
             Windows_getByType ''genericWindow'' s = Some gw"
proof -
  from assms have g: "Windows_getByType ''genericWindow'' s = Some gw"
    by (auto simp: available_generic_def split: option.splits if_splits)
  then obtain w where w: "deref s gw = Some w" "wtype w = ''genericWindow''"
    unfolding Windows_getByType_def using find_window_Some_deref by fastforce
  with assms g show ?thesis
    by (auto simp: available_generic_def split: if_splits)
qed

lemma createPopup_recycle:
  assumes "available_generic s = Some gw"
  shows "Windows_createPopup type options cb s =
     Inr (None, Window_reuse gw type (popupOpts type options s) cb
                  (dispatch (GenericWindowReuse type) s))"
  using assms by (simp add: Windows_createPopup_def Let_def)

lemma Window_reuse_heap:
  assumes "deref s gw = Some w"
  shows "heap (Window_reuse gw type opts cb s) =
           (heap s)[gw := w\<lparr>isAvailable := False,
                            onceDidFinishLoad := onceDidFinishLoad w @ [ReuseShow]\<rparr>]"
proof -
  have r: "gw < length (heap s)" and w: "heap s ! gw = w"
    using assms by (auto simp: deref_def split: if_splits)
  then show ?thesis
    by (cases "opt_url opts")
       (simp_all add: Window_reuse_def Window_load_def upd_def call_def deref_def Let_def)
qed

lemma createPopup_fresh:
  assumes "available_generic s = None" and "type = ''genericWindow'' \<or> loading s = Some l"
  shows "Windows_createPopup type options cb s =
     (let s1 = (if type \<noteq> ''genericWindow'' then Window_show l s else s);
          (wnd, s2) = Windows_create type (popupOpts type options s) cb s1
      in Inr (Some wnd, upd wnd (\<lambda>w. w\<lparr>onceReady := onceReady w @ [HideLoading type]\<rparr>) s2))"
  using assms by (auto simp: Windows_createPopup_def Let_def)

lemma Windows_create_new_facts:
  assumes "existing_same_owner type (opt_ownerId opts) s = None"
  shows "fst (Windows_create type opts cb s) = length (heap s)"
    and "\<exists>w0. heap (snd (Windows_create type opts cb s)) = heap s @ [w0] \<and>
              onceReady w0 = [] \<and> callback w0 = cb \<and> wtype w0 = type"
    and "loading (snd (Windows_create type opts cb s)) = loading s"
    and "constructions (snd (Windows_create type opts cb s)) = constructions s + 1"
proof -
  let ?merged = "deepExtend (Windows_getDefaultOptionsForType (glob s) type) opts"
  note new = Windows_create_new [OF assms, of cb]
  show "fst (Windows_create type opts cb s) = length (heap s)"
    by (simp add: new)
  show "\<exists>w0. heap (snd (Windows_create type opts cb s)) = heap s @ [w0] \<and>
              onceReady w0 = [] \<and> callback w0 = cb \<and> wtype w0 = type"
    by (simp add: new)
  show "loading (snd (Windows_create type opts cb s)) = loading s"
    by (simp add: new)
  show "constructions (snd (Windows_create type opts cb s)) = constructions s + 1"
    by (cases "opt_url ?merged") (simp_all add: new constructions_def)
qed

section \<open>Properties\<close>

text \<open>
  C1. Let \<^verbatim>\<open>createPopup(type, options, callback)\<close> be called while the registered window of
  type \<^verbatim>\<open>genericWindow\<close> has \<^verbatim>\<open>isAvailable\<close> true. Then the call does not throw, and its
  whole effect is this: the store is notified of the reuse; on the pooled handle
  \<^verbatim>\<open>isAvailable\<close> becomes false and a listener that shows the window is registered for the
  next \<^verbatim>\<open>did-finish-load\<close>; the native window of the pooled handle loads the merged URL
  (through \<^verbatim>\<open>load\<close>: when the URL is not empty and the handle is not closed) and is resized to
  the merged width and height. No handle and no native window is constructed (the number
  of native constructions stays what it was) and the registry is the same. The merged URL is not empty unless the caller passes an empty one.
\<close>

theorem createPopup_recycles_available_generic:
  fixes type :: string and options :: options and s :: state and gw :: ref
  defines "opts \<equiv> popupOpts type options s"
  defines "loads \<equiv> \<lambda>closed. (case opt_url opts of
                       None \<Rightarrow> []
                     | Some url \<Rightarrow> if url \<noteq> [] \<and> \<not> closed then [LoadURL gw url] else [])"
  assumes "Windows_getByType ''genericWindow'' s = Some gw"
    and "deref s gw = Some w"
    and "isAvailable w"
  shows "\<exists>ret s'. Windows_createPopup type options cb s = Inr (ret, s') \<and>
           s' = s\<lparr>heap := (heap s)[gw := w\<lparr>isAvailable := False,
                                            onceDidFinishLoad := onceDidFinishLoad w @ [ReuseShow]\<rparr>],
                  native := native s @ loads (isClosed w) @
                            [SetSize gw (eo_width (opt_electronOptions opts))
                                        (eo_height (opt_electronOptions opts))],
                  dispatched := dispatched s @ [GenericWindowReuse type]\<rparr> \<and>
           length (heap s') = length (heap s) \<and>
           constructions s' = constructions s \<and>
           windows s' = windows s \<and>
           (\<forall>t. run_dflListener gw ReuseShow t = Inr (Window_show gw t)) \<and>
           (opt_url options \<noteq> Some [] \<longrightarrow> opt_url opts \<noteq> None \<and> opt_url opts \<noteq> Some [])"
proof -
  have r: "gw < length (heap s)" and w: "heap s ! gw = w"
    using assms(4) by (auto simp: deref_def split: if_splits)
  let ?s0 = "dispatch (GenericWindowReuse type) s"
  have path: "Windows_createPopup type options cb s = Inr (None, Window_reuse gw type opts cb ?s0)"
    using assms(3-5) by (simp add: Windows_createPopup_def available_generic_def Let_def opts_def)
  have reuse: "Window_reuse gw type opts cb ?s0 =
      s\<lparr>heap := (heap s)[gw := w\<lparr>isAvailable := False,
                                 onceDidFinishLoad := onceDidFinishLoad w @ [ReuseShow]\<rparr>],
        native := native s @ loads (isClosed w) @
                  [SetSize gw (eo_width (opt_electronOptions opts))
                              (eo_height (opt_electronOptions opts))],
        dispatched := dispatched s @ [GenericWindowReuse type]\<rparr>"
    using r w
    by (cases "opt_url opts")
       (simp_all add: Window_reuse_def Window_load_def upd_def call_def dispatch_def deref_def
          loads_def Let_def)
  have url: "opt_url options \<noteq> Some [] \<longrightarrow> opt_url opts \<noteq> None \<and> opt_url opts \<noteq> Some []"
    unfolding opts_def by (rule popupOpts_url)
  have cons: "constructions (Window_reuse gw type opts cb ?s0) = constructions s"
    unfolding reuse by (simp add: constructions_def loads_def split: option.split)
  have same: "length (heap (Window_reuse gw type opts cb ?s0)) = length (heap s) \<and>
              windows (Window_reuse gw type opts cb ?s0) = windows s"
    unfolding reuse by simp
  from path reuse cons same url show ?thesis
    by simp
qed

theorem createPopup_recycles_available_generic_witness:
  "Windows_getByType ''genericWindow'' with_main = Some 1 \<and> isAvailable (heap with_main ! 1) \<and>
   (\<exists>ret. Windows_createPopup ''about'' no_options (Some 7) with_main =
      Inr (ret,
        with_main\<lparr>heap := (heap with_main)[1 := (heap with_main ! 1)
                     \<lparr>isAvailable := False,
                      onceDidFinishLoad := onceDidFinishLoad (heap with_main ! 1) @ [ReuseShow]\<rparr>],
                  native := native with_main @
                    [LoadURL 1 ''popups.html#about'', SetSize 1 (Some 420) (Some 230)],
                  dispatched := dispatched with_main @ [GenericWindowReuse ''about'']\<rparr>))"
proof -
  have g: "Windows_getByType ''genericWindow'' with_main = Some 1"
    by code_simp
  have d: "deref with_main 1 = Some (heap with_main ! 1)"
    by code_simp
  have a: "isAvailable (heap with_main ! 1)"
    by code_simp
  have c: "\<not> isClosed (heap with_main ! 1)"
    by code_simp
  have u: "opt_url (popupOpts ''about'' no_options with_main) = Some ''popups.html#about''"
    by code_simp
  have ew: "eo_width (opt_electronOptions (popupOpts ''about'' no_options with_main)) = Some 420"
    by code_simp
  have eh: "eo_height (opt_electronOptions (popupOpts ''about'' no_options with_main)) = Some 230"
    by code_simp
  from createPopup_recycles_available_generic [OF g d a, of "''about''" no_options "Some 7"]
  obtain ret where "Windows_createPopup ''about'' no_options (Some 7) with_main =
      Inr (ret,
        with_main\<lparr>heap := (heap with_main)[1 := (heap with_main ! 1)
                     \<lparr>isAvailable := False,
                      onceDidFinishLoad := onceDidFinishLoad (heap with_main ! 1) @ [ReuseShow]\<rparr>],
                  native := native with_main @
                    [LoadURL 1 ''popups.html#about'', SetSize 1 (Some 420) (Some 230)],
                  dispatched := dispatched with_main @ [GenericWindowReuse ''about'']\<rparr>)"
    using c u ew eh by auto
  with g a show ?thesis
    by blast
qed

text \<open>
  C2. When the registry processes the \<^verbatim>\<open>closed\<close> event of a handle, the first
  registry entry holding that very handle is deleted; where every handle is registered at
  most once, the handle is then no longer registered. The store of handles is not touched.
  Then \<^verbatim>\<open>app.quit()\<close> is called (once) exactly when no handle that is still registered is
  primary, not closed and shown. In particular it is called when every remaining primary
  handle is closed or merely hidden: a hidden primary window keeps the application open
  no more than a closed one.
\<close>

theorem onWindowClosed_quits_iff_no_visible_primary:
  "windows (Windows_onWindowClosed wnd s) = delete_identical wnd (windows s) \<and>
   heap (Windows_onWindowClosed wnd s) = heap s \<and>
   (distinct (map snd (windows s)) \<longrightarrow>
      wnd \<notin> snd ` set (windows (Windows_onWindowClosed wnd s))) \<and>
   quitCalls (Windows_onWindowClosed wnd s) =
     (if \<exists>p \<in> set (windows (Windows_onWindowClosed wnd s)).
           \<exists>w. deref s (snd p) = Some w \<and> isPrimary w \<and> \<not> isClosed w \<and> isShown w
      then quitCalls s else quitCalls s + 1) \<and>
   ((\<forall>p \<in> set (windows (Windows_onWindowClosed wnd s)).
       \<forall>w. deref s (snd p) = Some w \<and> isPrimary w \<longrightarrow> isClosed w \<or> \<not> isShown w) \<longrightarrow>
      quitCalls (Windows_onWindowClosed wnd s) = quitCalls s + 1)"
proof -
  let ?s1 = "s\<lparr>windows := delete_identical wnd (windows s)\<rparr>"
  have d: "\<And>r. deref ?s1 r = deref s r"
    by (simp add: deref_def)
  have none: "find_window (\<lambda>w. isPrimary w \<and> \<not> isClosed w \<and> isShown w) ?s1 = None \<longleftrightarrow>
      \<not> (\<exists>p \<in> set (delete_identical wnd (windows s)).
           \<exists>w. deref s (snd p) = Some w \<and> isPrimary w \<and> \<not> isClosed w \<and> isShown w)"
    by (simp add: find_window_None_iff d)
  have w: "windows (Windows_onWindowClosed wnd s) = delete_identical wnd (windows s)"
    by (simp add: Windows_onWindowClosed_def Let_def)
  have h: "heap (Windows_onWindowClosed wnd s) = heap s"
    by (simp add: Windows_onWindowClosed_def Let_def)
  have q: "quitCalls (Windows_onWindowClosed wnd s) =
     (if \<exists>p \<in> set (delete_identical wnd (windows s)).
           \<exists>w. deref s (snd p) = Some w \<and> isPrimary w \<and> \<not> isClosed w \<and> isShown w
      then quitCalls s else quitCalls s + 1)"
    using none by (simp add: Windows_onWindowClosed_def Let_def)
  have gone: "distinct (map snd (windows s)) \<longrightarrow> wnd \<notin> snd ` set (delete_identical wnd (windows s))"
    using delete_identical_gone by blast
  show ?thesis
    unfolding w h using q gone by auto
qed

theorem onWindowClosed_quits_iff_no_visible_primary_witness:
  "windows (Windows_onWindowClosed 0 with_main) = [(''genericWindow'', 1), (''main'', 2)] \<and>
   quitCalls (Windows_onWindowClosed 0 with_main) = quitCalls with_main"
proof -
  have w: "delete_identical 0 (windows with_main) = [(''genericWindow'', 1), (''main'', 2)]"
    by code_simp
  have m: "deref with_main 2 = Some (heap with_main ! 2)"
    by code_simp
  have v: "isPrimary (heap with_main ! 2) \<and> \<not> isClosed (heap with_main ! 2) \<and>
           isShown (heap with_main ! 2)"
    by code_simp
  from onWindowClosed_quits_iff_no_visible_primary [of 0 with_main] w m v
  show ?thesis by auto
qed

text \<open>
  C3. Let a handle have type \<^verbatim>\<open>genericWindow\<close> while the application is not quitting.
  A native close request is cancelled and turned into a call of \<^verbatim>\<open>close()\<close>, so no
  \<^verbatim>\<open>closed\<close> event follows; and \<^verbatim>\<open>close()\<close> never changes \<^verbatim>\<open>isClosed\<close> of any handle and
  never changes the registry. On a handle that is not closed, \<^verbatim>\<open>close()\<close> does exactly
  this: the native window is hidden (the only native call; it is not closed),
  \<^verbatim>\<open>isShown\<close> becomes false and \<^verbatim>\<open>isAvailable\<close> becomes true. On a handle that is already
  closed it does nothing.
\<close>

theorem generic_close_hides_and_pools:
  assumes "deref s r = Some w" and "wtype w = ''genericWindow''" and "\<not> appQuit s"
  shows "Window_on_close r s = (True, Window_close r s) \<and>
         native_close_request r s = Window_close r s \<and>
         map isClosed (heap (Window_close r s)) = map isClosed (heap s) \<and>
         windows (Window_close r s) = windows s \<and>
         (isClosed w \<longrightarrow> Window_close r s = s) \<and>
         (\<not> isClosed w \<longrightarrow>
            Window_close r s =
              s\<lparr>heap := (heap s)[r := w\<lparr>isShown := False, isAvailable := True\<rparr>],
                native := native s @ [NativeHide r]\<rparr>)"
proof -
  have r: "r < length (heap s)" and w: "heap s ! r = w"
    using assms(1) by (auto simp: deref_def split: if_splits)
  have on_close: "Window_on_close r s = (True, Window_close r s)"
    using assms by (simp add: Window_on_close_def)
  then have request: "native_close_request r s = Window_close r s"
    by (simp add: native_close_request_def)
  have closed: "isClosed w \<longrightarrow> Window_close r s = s"
    using assms(1) by (simp add: Window_close_def)
  have live: "\<not> isClosed w \<longrightarrow>
      Window_close r s =
        s\<lparr>heap := (heap s)[r := w\<lparr>isShown := False, isAvailable := True\<rparr>],
          native := native s @ [NativeHide r]\<rparr>"
    using assms(1,2) r w
    by (simp add: Window_close_def Window_hide_def upd_def call_def deref_def)
  have flags: "map isClosed (heap (Window_close r s)) = map isClosed (heap s)"
  proof (cases "isClosed w")
    case True
    with closed show ?thesis by simp
  next
    case False
    with live have "heap (Window_close r s) = (heap s)[r := w\<lparr>isShown := False, isAvailable := True\<rparr>]"
      by simp
    with r w show ?thesis
      by (simp add: map_update list_update_same_conv)
  qed
  have registry: "windows (Window_close r s) = windows s"
    using closed live by (cases "isClosed w") simp_all
  from on_close request flags registry closed live show ?thesis
    by blast
qed

theorem generic_close_hides_and_pools_witness:
  "deref booted 1 = Some (heap booted ! 1) \<and> wtype (heap booted ! 1) = ''genericWindow'' \<and>
   \<not> appQuit booted \<and> \<not> isClosed (heap booted ! 1) \<and>
   native_close_request 1 booted =
     booted\<lparr>heap := (heap booted)[1 := (heap booted ! 1)\<lparr>isShown := False, isAvailable := True\<rparr>],
            native := native booted @ [NativeHide 1]\<rparr>"
proof -
  have d: "deref booted 1 = Some (heap booted ! 1)"
    by code_simp
  have t: "wtype (heap booted ! 1) = ''genericWindow''"
    by code_simp
  have q: "\<not> appQuit booted"
    by code_simp
  have c: "\<not> isClosed (heap booted ! 1)"
    by code_simp
  from generic_close_hides_and_pools [OF d t q] d t q c show ?thesis
    by simp
qed

text \<open>
  C4 (as the code has it). On the path that does not recycle (and does not throw),
  \<^verbatim>\<open>createPopup\<close> returns a handle, the one \<^verbatim>\<open>create\<close> returned, and that handle has the
  requested type. On the recycling path the pooled handle is reused in place and its
  \<^verbatim>\<open>type\<close> field is not changed: after the call it is still \<^verbatim>\<open>genericWindow\<close>, and the
  only fields of the handle that differ are \<^verbatim>\<open>isAvailable\<close> (now false) and the listeners
  waiting for \<^verbatim>\<open>did-finish-load\<close>.
\<close>

theorem createPopup_recycled_handle_keeps_type:
  "(available_generic s = None \<and> (type = ''genericWindow'' \<or> loading s \<noteq> None) \<longrightarrow>
      (\<exists>wnd w' s'. Windows_createPopup type options cb s = Inr (Some wnd, s') \<and>
                    deref s' wnd = Some w' \<and> wtype w' = type)) \<and>
   (\<forall>gw w. available_generic s = Some gw \<and> deref s gw = Some w \<longrightarrow>
      (\<exists>ret s'. Windows_createPopup type options cb s = Inr (ret, s') \<and>
                 deref s' gw =
                   Some (w\<lparr>isAvailable := False,
                           onceDidFinishLoad := onceDidFinishLoad w @ [ReuseShow]\<rparr>) \<and>
                 map_option wtype (deref s' gw) = Some ''genericWindow''))"
proof (intro conjI allI impI)
  assume a: "available_generic s = None \<and> (type = ''genericWindow'' \<or> loading s \<noteq> None)"
  then obtain l where l: "type = ''genericWindow'' \<or> loading s = Some l"
    by auto
  let ?s1 = "if type \<noteq> ''genericWindow'' then Window_show l s else s"
  let ?opts = "popupOpts type options s"
  let ?mark = "\<lambda>w. w\<lparr>onceReady := onceReady w @ [HideLoading type]\<rparr>"
  from a l have p: "Windows_createPopup type options cb s =
     (let (wnd, s2) = Windows_create type ?opts cb ?s1
      in Inr (Some wnd, upd wnd ?mark s2))"
    by (simp add: createPopup_fresh Let_def)
  show "\<exists>wnd w' s'. Windows_createPopup type options cb s = Inr (Some wnd, s') \<and>
                    deref s' wnd = Some w' \<and> wtype w' = type"
  proof (cases "existing_same_owner type (opt_ownerId ?opts) ?s1")
    case None
    show ?thesis
      unfolding p by (simp add: Windows_create_new [OF None] deref_def upd_def)
  next
    case (Some e)
    from existing_same_owner_Some [OF Some] obtain w where "deref ?s1 e = Some w" "wtype w = type"
      by blast
    then show ?thesis
      unfolding p by (simp add: Windows_create_existing [OF Some])
  qed
next
  fix gw w
  assume a: "available_generic s = Some gw \<and> deref s gw = Some w"
  let ?s0 = "dispatch (GenericWindowReuse type) s"
  let ?w' = "w\<lparr>isAvailable := False, onceDidFinishLoad := onceDidFinishLoad w @ [ReuseShow]\<rparr>"
  from a available_generic_Some have t: "wtype w = ''genericWindow''"
    by fastforce
  from a have r: "gw < length (heap s)"
    by (auto simp: deref_def split: if_splits)
  from a have "deref ?s0 gw = Some w"
    by simp
  then have "heap (Window_reuse gw type (popupOpts type options s) cb ?s0) = (heap s)[gw := ?w']"
    by (simp add: Window_reuse_heap)
  with r have "deref (Window_reuse gw type (popupOpts type options s) cb ?s0) gw = Some ?w'"
    by (simp add: deref_def)
  with a t show "\<exists>ret s'. Windows_createPopup type options cb s = Inr (ret, s') \<and>
                 deref s' gw = Some ?w' \<and>
                 map_option wtype (deref s' gw) = Some ''genericWindow''"
    by (simp add: createPopup_recycle)
qed

theorem createPopup_recycled_handle_keeps_type_witness:
  "available_generic with_main = Some 1 \<and>
   (\<exists>ret s'. Windows_createPopup ''about'' no_options None with_main = Inr (ret, s') \<and>
              map_option wtype (deref s' 1) = Some ''genericWindow'')"
proof -
  have a: "available_generic with_main = Some 1"
    by code_simp
  have d: "deref with_main 1 = Some (heap with_main ! 1)"
    by code_simp
  from createPopup_recycled_handle_keeps_type [of with_main "''about''" no_options None] a d
  have "\<exists>ret s'. Windows_createPopup ''about'' no_options None with_main = Inr (ret, s') \<and>
              map_option wtype (deref s' 1) = Some ''genericWindow''"
    by blast
  with a show ?thesis
    by blast
qed

text \<open>
  The claim as stated fails: opening the popup \<^verbatim>\<open>about\<close> while the pooled window is
  available leaves the type of the pooled handle \<^verbatim>\<open>genericWindow\<close>, not \<^verbatim>\<open>about\<close>, so no
  registered handle has the requested type; and the call evaluates to \<^verbatim>\<open>undefined\<close>.
\<close>

theorem createPopup_recycled_handle_counterexample:
  "(case Windows_createPopup ''about'' no_options None with_main of
      Inl e \<Rightarrow> False
    | Inr (ret, s') \<Rightarrow>
        ret = None \<and> map wtype (heap s') = [''loading'', ''genericWindow'', ''main''] \<and>
        Windows_getByType ''about'' s' = None)"
  by code_simp

text \<open>
  C5. Let \<^verbatim>\<open>create(type, opts, callback)\<close> be called while the registered window of that
  type has the requested \<^verbatim>\<open>ownerId\<close> (no preset sets one, so the requested owner is the
  caller's). Then the existing handle is returned, and the only effect is the
  notification \<^verbatim>\<open>CREATE_START\<close> sent to the store: no handle and no native window is
  constructed, no native call is made, no field of any handle changes, and the registry is
  the same.
\<close>

theorem create_existing_is_idempotent:
  assumes "Windows_getByType type s = Some existing"
    and "deref s existing = Some w"
    and "ownerId w = opt_ownerId opts"
  shows "Windows_create type opts cb s = (existing, dispatch (WindowCreateStart type) s) \<and>
         heap (snd (Windows_create type opts cb s)) = heap s \<and>
         windows (snd (Windows_create type opts cb s)) = windows s \<and>
         native (snd (Windows_create type opts cb s)) = native s \<and>
         constructions (snd (Windows_create type opts cb s)) = constructions s"
proof -
  let ?s1 = "dispatch (WindowCreateStart type) s"
  have requested:
    "opt_ownerId (deepExtend (Windows_getDefaultOptionsForType (glob s) type) opts) = opt_ownerId opts"
    by (simp add: deepExtend_def preset_ownerId)
  have "Windows_getByType type ?s1 = Some existing"
    using assms(1) by (simp add: Windows_getByType_def find_window_cong [of ?s1 s])
  with assms(2,3) have "existing_same_owner type (opt_ownerId opts) ?s1 = Some existing"
    by (simp add: existing_same_owner_def)
  with requested have "Windows_create type opts cb s = (existing, ?s1)"
    by (simp add: Windows_create_def Let_def)
  then show ?thesis
    by simp
qed

theorem create_existing_is_idempotent_witness:
  "Windows_getByType ''main'' with_main = Some 2 \<and>
   ownerId (heap with_main ! 2) = opt_ownerId no_options \<and>
   Windows_create ''main'' no_options (Some 5) with_main =
     (2, dispatch (WindowCreateStart ''main'') with_main)"
proof -
  have g: "Windows_getByType ''main'' with_main = Some 2"
    by code_simp
  have d: "deref with_main 2 = Some (heap with_main ! 2)"
    by code_simp
  have o: "ownerId (heap with_main ! 2) = opt_ownerId no_options"
    by code_simp
  from create_existing_is_idempotent [OF g d o, of "Some 5"] g o show ?thesis
    by simp
qed

text \<open>
  C6 (as the code has it). The decision taken at a \<^verbatim>\<open>closed\<close> event does not look at
  the handle that closed. When a handle that is not primary closes, \<^verbatim>\<open>app.quit()\<close> is not
  called as long as some registered handle is primary, not closed and shown; when there is
  no such handle, \<^verbatim>\<open>app.quit()\<close> is called, although the handle that closed is not primary.
\<close>

theorem nonprimary_closed_quits_iff_no_visible_primary:
  assumes "deref s wnd = Some w" and "\<not> isPrimary w"
  shows "quitCalls (Window_on_closed wnd s) =
     (if \<exists>p \<in> set (windows s).
           \<exists>w'. deref s (snd p) = Some w' \<and> isPrimary w' \<and> \<not> isClosed w' \<and> isShown w'
      then quitCalls s else quitCalls s + 1)"
proof -
  let ?f = "\<lambda>w. w\<lparr>isShown := False, isClosed := True, isContentReady := False\<rparr>"
  let ?s1 = "s\<lparr>heap := (heap s)[wnd := ?f w]\<rparr>"
  let ?s2 = "?s1\<lparr>windows := delete_identical wnd (windows s)\<rparr>"
  let ?V = "\<lambda>w. isPrimary w \<and> \<not> isClosed w \<and> isShown w"
  have u: "upd wnd ?f s = ?s1"
    using assms(1) by (simp add: upd_def)
  have d: "\<And>r. deref ?s2 r = (if r = wnd then Some (?f w) else deref s r)"
    using assms(1) by (auto simp: deref_def split: if_splits)
  have "(\<exists>p \<in> set (delete_identical wnd (windows s)). \<exists>w'. deref ?s2 (snd p) = Some w' \<and> ?V w')
     \<longleftrightarrow> (\<exists>p \<in> set (windows s). \<exists>w'. deref s (snd p) = Some w' \<and> ?V w')"
    (is "?L \<longleftrightarrow> ?R")
  proof
    assume ?L
    then obtain p w' where p: "p \<in> set (delete_identical wnd (windows s))"
      and w': "deref ?s2 (snd p) = Some w'" "?V w'"
      by blast
    from w' have "snd p \<noteq> wnd"
      by (auto simp: d split: if_splits)
    with w' have "deref s (snd p) = Some w'"
      by (simp add: d)
    with p w'(2) delete_identical_subset show ?R
      by blast
  next
    assume ?R
    then obtain p w' where p: "p \<in> set (windows s)"
      and w': "deref s (snd p) = Some w'" "?V w'"
      by blast
    from w' assms have ne: "snd p \<noteq> wnd"
      by auto
    with p have "p \<in> set (delete_identical wnd (windows s))"
      by (rule delete_identical_keeps)
    moreover from ne w' have "deref ?s2 (snd p) = Some w'"
      by (simp add: d)
    ultimately show ?L
      using w'(2) by blast
  qed
  then have "find_window ?V ?s2 = None \<longleftrightarrow>
      \<not> (\<exists>p \<in> set (windows s). \<exists>w'. deref s (snd p) = Some w' \<and> ?V w')"
    by (simp add: find_window_None_iff)
  then show ?thesis
    by (simp add: Window_on_closed_def Windows_onWindowClosed_def u Let_def)
qed

theorem nonprimary_closed_quits_iff_no_visible_primary_witness:
  "deref with_main 0 = Some (heap with_main ! 0) \<and> \<not> isPrimary (heap with_main ! 0) \<and>
   quitCalls (Window_on_closed 0 with_main) = quitCalls with_main"
proof -
  have l: "deref with_main 0 = Some (heap with_main ! 0)"
    by code_simp
  have n: "\<not> isPrimary (heap with_main ! 0)"
    by code_simp
  have e: "(''main'', 2) \<in> set (windows with_main)"
    by code_simp
  have m: "deref with_main (snd (''main'', 2 :: nat)) = Some (heap with_main ! 2)"
    by code_simp
  have v: "isPrimary (heap with_main ! 2) \<and> \<not> isClosed (heap with_main ! 2) \<and>
           isShown (heap with_main ! 2)"
    by code_simp
  from e m v have "\<exists>p \<in> set (windows with_main).
           \<exists>w'. deref with_main (snd p) = Some w' \<and> isPrimary w' \<and> \<not> isClosed w' \<and> isShown w'"
    by blast
  with nonprimary_closed_quits_iff_no_visible_primary [OF l n] l n
  show ?thesis by simp
qed

text \<open>
  The claim as stated fails: with the main window hidden, the \<^verbatim>\<open>closed\<close> event of the
  loading window (handle 0, not primary) calls \<^verbatim>\<open>app.quit()\<close>.
\<close>

theorem nonprimary_closed_quits_counterexample:
  "\<not> isPrimary (heap with_main ! 0) \<and>
   map_sum id quitCalls (run [Hide 2] with_main) = Inr 0 \<and>
   map_sum id quitCalls (run [Hide 2, CloseRequest 0] with_main) = Inr 1"
  by code_simp

text \<open>
  C7 (as the code has it). \<^verbatim>\<open>hide()\<close> never calls \<^verbatim>\<open>app.quit()\<close>: the shutdown check runs
  only when a \<^verbatim>\<open>closed\<close> event is processed. In the course: \<^verbatim>\<open>init()\<close>, create \<^verbatim>\<open>main\<close>
  and show it (the state \<open>with_main\<close>), open the popup \<^verbatim>\<open>about\<close> (it takes the pooled
  window, handle 1), its content loads, the popup is closed (by a native close request, or
  by \<^verbatim>\<open>close()\<close>), the application has not quit and \<^verbatim>\<open>main\<close> (handle 2) is still shown.
  After \<^verbatim>\<open>main\<close> is hidden the quit action has still not been invoked. It is invoked,
  once, when the next \<^verbatim>\<open>closed\<close> event is processed, here that of the loading window.
\<close>

theorem hide_does_not_quit_until_next_closed:
  "quitCalls (Window_hide r s) = quitCalls s \<and>
   map_sum id (\<lambda>s. (quitCalls s, map_option isShown (deref s 2)))
     (run [CreatePopup ''about'' no_options None, DidFinishLoad 1, CloseRequest 1] with_main) =
     Inr (0, Some True) \<and>
   map_sum id (\<lambda>s. (quitCalls s, map_option isShown (deref s 2)))
     (run [CreatePopup ''about'' no_options None, DidFinishLoad 1, Close 1] with_main) =
     Inr (0, Some True) \<and>
   map_sum id (\<lambda>s. (quitCalls s, map_option isShown (deref s 2)))
     (run [CreatePopup ''about'' no_options None, DidFinishLoad 1, CloseRequest 1, Hide 2]
        with_main) =
     Inr (0, Some False) \<and>
   map_sum id quitCalls
     (run [CreatePopup ''about'' no_options None, DidFinishLoad 1, CloseRequest 1, Hide 2,
           CloseRequest 0] with_main) =
     Inr 1"
proof -
  have hide: "quitCalls (Window_hide r s) = quitCalls s"
    by (simp add: Window_hide_def split: option.splits)
  have closed_popup:
    "map_sum id (\<lambda>s. (quitCalls s, map_option isShown (deref s 2)))
       (run [CreatePopup ''about'' no_options None, DidFinishLoad 1, CloseRequest 1] with_main) =
     Inr (0, Some True)"
    by code_simp
  have closed_popup':
    "map_sum id (\<lambda>s. (quitCalls s, map_option isShown (deref s 2)))
       (run [CreatePopup ''about'' no_options None, DidFinishLoad 1, Close 1] with_main) =
     Inr (0, Some True)"
    by code_simp
  have hidden:
    "map_sum id (\<lambda>s. (quitCalls s, map_option isShown (deref s 2)))
       (run [CreatePopup ''about'' no_options None, DidFinishLoad 1, CloseRequest 1, Hide 2]
          with_main) =
     Inr (0, Some False)"
    by code_simp
  have later:
    "map_sum id quitCalls
       (run [CreatePopup ''about'' no_options None, DidFinishLoad 1, CloseRequest 1, Hide 2,
             CloseRequest 0] with_main) =
     Inr 1"
    by code_simp
  from hide closed_popup closed_popup' hidden later show ?thesis
    by blast
qed

theorem hide_does_not_quit_until_next_closed_witness:
  "quitCalls (Window_hide 2 with_main) = quitCalls with_main"
  using hide_does_not_quit_until_next_closed [of 2 with_main] by blast

text \<open>
  The claim as stated fails: at the end of its course, after \<^verbatim>\<open>main\<close> has been hidden,
  \<^verbatim>\<open>app.quit()\<close> has been called zero times, not once, whichever way the popup was closed.
\<close>

theorem hide_main_quits_counterexample:
  "map_sum id quitCalls
     (run [CreatePopup ''about'' no_options None, DidFinishLoad 1, CloseRequest 1, Hide 2]
        with_main) = Inr 0 \<and>
   map_sum id quitCalls
     (run [CreatePopup ''about'' no_options None, DidFinishLoad 1, Close 1, Hide 2]
        with_main) = Inr 0 \<and>
   map_sum id quitCalls
     (run [CreatePopup ''about'' no_options None, CloseRequest 1, Hide 2] with_main) = Inr 0"
  by code_simp

text \<open>
  C8. A \<^verbatim>\<open>send\<close> on a handle that is closed, or whose content is not ready, returns
  normally and leaves the whole state as it was: no native call is made and nothing is
  stored. So nothing is queued, and every later course of calls and events (the
  completion of the load and the \<^verbatim>\<open>ready\<close> event included) proceeds exactly as if the
  message had never been sent.
\<close>

theorem send_dropped:
  assumes "deref s r = Some w" and "isClosed w \<or> \<not> isContentReady w"
  shows "Window_send r arguments s = s \<and>
         native (Window_send r arguments s) = native s \<and>
         run (Send r arguments # later) s = run later s"
  using assms by (auto simp: Window_send_def run_def)

theorem send_dropped_witness:
  "deref booted 1 = Some (heap booted ! 1) \<and> \<not> isContentReady (heap booted ! 1) \<and>
   Window_send 1 [''ping''] booted = booted \<and>
   run [Send 1 [''ping''], DidFinishLoad 1] booted = run [DidFinishLoad 1] booted"
proof -
  have d: "deref booted 1 = Some (heap booted ! 1)" by code_simp
  have n: "isClosed (heap booted ! 1) \<or> \<not> isContentReady (heap booted ! 1)" by code_simp
  have c: "\<not> isContentReady (heap booted ! 1)" by code_simp
  from send_dropped [OF d n, of "[''ping'']" "[DidFinishLoad 1]"] d c show ?thesis by simp
qed

text \<open>
  C9 (as the code has it). Let \<^verbatim>\<open>createPopup\<close> take the path that does not recycle, with
  \<^verbatim>\<open>this.loading\<close> set or the type being \<^verbatim>\<open>genericWindow\<close>. Then it calls \<^verbatim>\<open>create\<close> once,
  after \<^verbatim>\<open>show()\<close> of the loading window unless the type is \<^verbatim>\<open>genericWindow\<close>, registers
  its listener for \<^verbatim>\<open>ready\<close> on the handle \<^verbatim>\<open>create\<close> returned, and returns that handle.
  Exactly one handle and one native window are constructed when no window of that type
  with the same owner is registered; otherwise none is constructed and the registered one
  is returned. When the \<^verbatim>\<open>ready\<close> event of a freshly constructed handle fires, the loading
  window gets \<^verbatim>\<open>hide()\<close>, unless the type is \<^verbatim>\<open>genericWindow\<close>: then the loading window
  is neither shown nor hidden.
\<close>

theorem createPopup_fresh_path_brackets_loading:
  fixes type :: string and options :: options and s :: state and l :: ref and cb :: "nat option"
  defines "opts \<equiv> popupOpts type options s"
  defines "before \<equiv> (if type \<noteq> ''genericWindow'' then Window_show l s else s)"
  defines "n \<equiv> (if existing_same_owner type (opt_ownerId opts) s = None then 1 else 0 :: nat)"
  assumes "available_generic s = None" and "type = ''genericWindow'' \<or> loading s = Some l"
  shows "\<exists>wnd w' s'.
           Windows_createPopup type options cb s = Inr (Some wnd, s') \<and>
           wnd = fst (Windows_create type opts cb before) \<and>
           s' = upd wnd (\<lambda>w. w\<lparr>onceReady := onceReady w @ [HideLoading type]\<rparr>)
                  (snd (Windows_create type opts cb before)) \<and>
           length (heap s') = length (heap s) + n \<and>
           constructions s' = constructions s + n \<and>
           deref s' wnd = Some w' \<and> onceReady w' \<noteq> [] \<and>
           last (onceReady w') = HideLoading type \<and>
           (existing_same_owner type (opt_ownerId opts) s = None \<longrightarrow>
              emit_ready wnd s' =
                (if type \<noteq> ''genericWindow''
                 then Inr (Window_hide l (upd wnd (\<lambda>w. w\<lparr>onceReady := []\<rparr>) s'))
                 else Inr (upd wnd (\<lambda>w. w\<lparr>onceReady := []\<rparr>) s')))"
proof -
  let ?mark = "\<lambda>w. w\<lparr>onceReady := onceReady w @ [HideLoading type]\<rparr>"
  have p: "Windows_createPopup type options cb s =
     (let (wnd, s2) = Windows_create type opts cb before in Inr (Some wnd, upd wnd ?mark s2))"
    using assms(4,5) by (simp add: createPopup_fresh Let_def opts_def before_def)
  have len: "length (heap before) = length (heap s)"
    and cons: "constructions before = constructions s"
    and ld: "type \<noteq> ''genericWindow'' \<Longrightarrow> loading before = Some l"
    using assms(5) by (simp_all add: before_def)
  have same: "existing_same_owner type (opt_ownerId opts) before =
              existing_same_owner type (opt_ownerId opts) s"
    by (simp add: before_def)
  show ?thesis
  proof (cases "existing_same_owner type (opt_ownerId opts) s")
    case None
    then have e: "existing_same_owner type (opt_ownerId opts) before = None"
      using same by simp
    have n: "n = 1"
      using None by (simp add: n_def)
    let ?c = "Windows_create type opts cb before"
    let ?wnd = "length (heap before)"
    let ?clear = "\<lambda>w. w\<lparr>onceReady := []\<rparr>"
    from Windows_create_new_facts [OF e, of cb] obtain w0
      where f: "fst ?c = ?wnd"
        and h: "heap (snd ?c) = heap before @ [w0]" "onceReady w0 = []"
        and l2: "loading (snd ?c) = loading before"
        and c2: "constructions (snd ?c) = constructions before + 1"
      by blast
    let ?s' = "upd ?wnd ?mark (snd ?c)"
    have d2: "deref (snd ?c) ?wnd = Some w0"
      by (simp add: deref_def h)
    then have hs: "heap ?s' = heap before @ [?mark w0]"
      by (simp add: upd_def h)
    have ds: "deref ?s' ?wnd = Some (?mark w0)"
      using d2 by simp
    have ls: "loading (upd ?wnd ?clear ?s') = loading before"
      by (simp add: l2)
    have ready: "emit_ready ?wnd ?s' =
        (if type \<noteq> ''genericWindow''
         then Inr (Window_hide l (upd ?wnd ?clear ?s'))
         else Inr (upd ?wnd ?clear ?s'))"
      using ld by (simp add: emit_ready_def ds h(2) ls del: deref_upd upd_fields)
    have "Windows_createPopup type options cb s = Inr (Some ?wnd, ?s')"
      unfolding p using f by (simp add: case_prod_unfold)
    moreover have "length (heap ?s') = length (heap s) + n"
      using hs len n by simp
    moreover have "constructions ?s' = constructions s + n"
      using c2 cons n by simp
    moreover have "onceReady (?mark w0) \<noteq> [] \<and> last (onceReady (?mark w0)) = HideLoading type"
      by (simp add: h(2))
    ultimately show ?thesis
      using f ds ready by auto
  next
    case (Some e)
    then have e: "existing_same_owner type (opt_ownerId opts) before = Some e"
      using same by simp
    have n: "n = 0"
      using Some by (simp add: n_def)
    from existing_same_owner_Some [OF e] obtain w where w: "deref before e = Some w"
      by blast
    show ?thesis
      unfolding p n
      using Some len cons w
      by (simp add: Windows_create_existing [OF e])
  qed
qed

theorem createPopup_fresh_path_brackets_loading_witness:
  "available_generic with_about = None \<and> loading with_about = Some 0 \<and>
   (\<exists>s'. Windows_createPopup ''connectAccount'' no_options None with_about = Inr (Some 3, s') \<and>
          length (heap s') = length (heap with_about) + 1 \<and>
          constructions s' = constructions with_about + 1 \<and>
          emit_ready 3 s' = Inr (Window_hide 0 (upd 3 (\<lambda>w. w\<lparr>onceReady := []\<rparr>) s')))"
proof -
  have a: "available_generic with_about = None"
    by code_simp
  have l: "''connectAccount'' = ''genericWindow'' \<or> loading with_about = Some 0"
    by code_simp
  have l': "loading with_about = Some 0"
    by code_simp
  have e: "existing_same_owner ''connectAccount''
             (opt_ownerId (popupOpts ''connectAccount'' no_options with_about)) with_about = None"
    by code_simp
  have f: "fst (Windows_create ''connectAccount''
                  (popupOpts ''connectAccount'' no_options with_about) None
                  (Window_show 0 with_about)) = 3"
    by code_simp
  from createPopup_fresh_path_brackets_loading [OF a l, of no_options None] e f
  have "\<exists>s'. Windows_createPopup ''connectAccount'' no_options None with_about = Inr (Some 3, s') \<and>
          length (heap s') = length (heap with_about) + 1 \<and>
          constructions s' = constructions with_about + 1 \<and>
          emit_ready 3 s' = Inr (Window_hide 0 (upd 3 (\<lambda>w. w\<lparr>onceReady := []\<rparr>) s'))"
    by auto
  with a l' show ?thesis
    by blast
qed

text \<open>
  The claim as stated fails: while the pooled window is in use and the popup
  \<^verbatim>\<open>connectAccount\<close> (handle 3) is open, asking for that popup again takes the path that
  does not recycle, shows the loading window, and constructs no handle and no native
  window: the registered handle is returned.
\<close>

theorem createPopup_fresh_path_counterexample:
  "available_generic with_connect = None \<and>
   (case Windows_createPopup ''connectAccount'' no_options None with_connect of
      Inl e \<Rightarrow> False
    | Inr (ret, s') \<Rightarrow>
        ret = Some 3 \<and> length (heap s') = length (heap with_connect) \<and>
        constructions s' = constructions with_connect \<and>
        native s' = native with_connect @ [NativeShow 0])"
  by code_simp

text \<open>
  C10. On the recycling path the callback has no effect at all: the result of
  \<^verbatim>\<open>createPopup(type, options, callback)\<close> is the result of the call without a callback, and
  the \<^verbatim>\<open>callback\<close> field of every handle is what it was. On the path that creates a
  fresh handle (no pooled window available, no registered window of that type with the
  same owner), the returned handle carries the callback in its \<^verbatim>\<open>callback\<close> field.
\<close>

theorem callback_kept_only_by_fresh_creation:
  "(\<forall>gw. available_generic s = Some gw \<longrightarrow>
      Windows_createPopup type options cb s = Windows_createPopup type options None s \<and>
      (\<exists>ret s'. Windows_createPopup type options cb s = Inr (ret, s') \<and>
                 map callback (heap s') = map callback (heap s))) \<and>
   (available_generic s = None \<and> (type = ''genericWindow'' \<or> loading s \<noteq> None) \<and>
    existing_same_owner type (opt_ownerId (popupOpts type options s)) s = None \<longrightarrow>
      (\<exists>wnd w' s'. Windows_createPopup type options (Some f) s = Inr (Some wnd, s') \<and>
                    deref s' wnd = Some w' \<and> callback w' = Some f))"
proof (intro conjI allI impI)
  fix gw
  assume a: "available_generic s = Some gw"
  show "Windows_createPopup type options cb s = Windows_createPopup type options None s"
    by (simp add: createPopup_recycle [OF a] Window_reuse_def)
  from available_generic_Some [OF a] obtain w where w: "deref s gw = Some w"
    by blast
  then have r: "gw < length (heap s)" and h: "heap s ! gw = w"
    by (auto simp: deref_def split: if_splits)
  let ?s0 = "dispatch (GenericWindowReuse type) s"
  have "deref ?s0 gw = Some w"
    using w by simp
  then have "heap (Window_reuse gw type (popupOpts type options s) cb ?s0) =
      (heap s)[gw := w\<lparr>isAvailable := False,
                       onceDidFinishLoad := onceDidFinishLoad w @ [ReuseShow]\<rparr>]"
    by (simp add: Window_reuse_heap)
  then have "map callback (heap (Window_reuse gw type (popupOpts type options s) cb ?s0)) =
      map callback (heap s)"
    using r h by (simp add: map_update list_update_same_conv)
  then show "\<exists>ret s'. Windows_createPopup type options cb s = Inr (ret, s') \<and>
                 map callback (heap s') = map callback (heap s)"
    by (simp add: createPopup_recycle [OF a])
next
  assume a: "available_generic s = None \<and> (type = ''genericWindow'' \<or> loading s \<noteq> None) \<and>
    existing_same_owner type (opt_ownerId (popupOpts type options s)) s = None"
  then obtain l where l: "type = ''genericWindow'' \<or> loading s = Some l"
    by auto
  let ?s1 = "if type \<noteq> ''genericWindow'' then Window_show l s else s"
  let ?opts = "popupOpts type options s"
  have e: "existing_same_owner type (opt_ownerId ?opts) ?s1 = None"
    using a by auto
  have n: "length (heap ?s1) = length (heap s)"
    by simp
  from a l have "Windows_createPopup type options (Some f) s =
     (let (wnd, s2) = Windows_create type ?opts (Some f) ?s1
      in Inr (Some wnd, upd wnd (\<lambda>w. w\<lparr>onceReady := onceReady w @ [HideLoading type]\<rparr>) s2))"
    by (simp add: createPopup_fresh Let_def)
  then show "\<exists>wnd w' s'. Windows_createPopup type options (Some f) s = Inr (Some wnd, s') \<and>
                    deref s' wnd = Some w' \<and> callback w' = Some f"
    by (simp add: Windows_create_new [OF e] deref_def upd_def)
qed

theorem callback_kept_only_by_fresh_creation_witness:
  "available_generic with_main = Some 1 \<and>
   Windows_createPopup ''about'' no_options (Some 7) with_main =
     Windows_createPopup ''about'' no_options None with_main \<and>
   available_generic with_about = None \<and>
   (\<exists>wnd w' s'. Windows_createPopup ''connectAccount'' no_options (Some 7) with_about =
                   Inr (Some wnd, s') \<and> deref s' wnd = Some w' \<and> callback w' = Some 7)"
proof -
  have a: "available_generic with_main = Some 1"
    by code_simp
  have b: "available_generic with_about = None"
    by code_simp
  have l: "loading with_about \<noteq> None"
    by code_simp
  have e: "existing_same_owner ''connectAccount''
             (opt_ownerId (popupOpts ''connectAccount'' no_options with_about)) with_about = None"
    by code_simp
  from callback_kept_only_by_fresh_creation [of with_main "''about''" no_options "Some 7"] a
  have "Windows_createPopup ''about'' no_options (Some 7) with_main =
        Windows_createPopup ''about'' no_options None with_main"
    by blast
  moreover
  from callback_kept_only_by_fresh_creation [of with_about "''connectAccount''" no_options None 7]
    b l e
  have "\<exists>wnd w' s'. Windows_createPopup ''connectAccount'' no_options (Some 7) with_about =
                   Inr (Some wnd, s') \<and> deref s' wnd = Some w' \<and> callback w' = Some 7"
    by blast
  ultimately show ?thesis
    using a b by blast
qed

end
